theory Spec2Isabelle
  imports Main "HOL-Library.AList" "HOL-Library.Sublist"
begin

section \<open>Data model\<close>

text \<open>
  JSON values as they travel through the platform (webhook responses, output data,
  metadata). Numbers are integers here; floating point plays no role in what follows.
\<close>

datatype json =
    JNull
  | JBool bool
  | JNum int
  | JStr string
  | JArr "json list"
  | JObj "(string \<times> json) list"

text \<open>JavaScript truthiness of a JSON value (\<open>if (v)\<close>, \<open>a && b\<close>, \<open>a || b\<close>).\<close>

fun truthy :: "json \<Rightarrow> bool" where
  "truthy JNull = False"
| "truthy (JBool b) = b"
| "truthy (JNum n) = (n \<noteq> 0)"
| "truthy (JStr s) = (s \<noteq> [])"
| "truthy (JArr xs) = True"
| "truthy (JObj kvs) = True"

text \<open>
  Property access \<open>v.k\<close> on a non-null value: \<open>None\<close> is \<open>undefined\<close>. Only objects
  carry the properties read by the code modelled here.
\<close>

fun field :: "json \<Rightarrow> string \<Rightarrow> json option" where
  "field (JObj kvs) k = map_of kvs k"
| "field v k = None"

text \<open>\<open>src/types/execution.ts\<close>: \<open>ExecutionStatus\<close>, \<open>ExecutionInput\<close>, \<open>ExecutionOutput\<close>.\<close>

datatype execution_status = Pending | Processing | Completed | Failed

datatype output_type = Video | Image | Text | Json

record execution_input =
  prompt :: "string option"
  parameters :: "(string \<times> json) list option"

record execution_output =
  out_type :: output_type
  data :: json
  metadata :: "json option"

text \<open>
  Values that JavaScript code throws. The first seven constructors are the classes of
  \<open>src/lib/api/errors.ts\<close> (\<open>ExecutionBaseError\<close> and its subclasses) with their
  constructor arguments; \<open>AgentValidationError\<close> is the class of
  \<open>src/lib/agents/agent-registry.ts\<close>, \<open>StorageError\<close> (message, code) the one of the
  storage service; \<open>TypeError\<close> and \<open>GenericError\<close> (name, message) are the built-in
  \<open>Error\<close> instances (a \<open>DOMException\<close> is a \<open>GenericError\<close>); \<open>Value\<close> is a thrown
  value that is no \<open>Error\<close> instance.
\<close>

datatype thrown =
    ExecutionBaseError string string
  | ExecutionTimeoutError string int
  | ValidationError string string
  | WebhookError int string
  | NetworkError string "thrown option"
  | AgentNotFoundError string
  | AgentUnavailableError string string
  | AgentValidationError string "string option"
  | StorageError string string
  | TypeError string
  | GenericError string string
  | Value json

record execution_error =
  code :: string
  message :: string
  details :: "thrown option"

text \<open>
  \<open>Execution\<close>. The field \<open>id\<close> is \<open>exec_id\<close> and \<open>output\<close> is \<open>exec_output\<close> here
  (both names are taken in Isabelle); dates are millisecond timestamps.
\<close>

record execution =
  exec_id :: string
  agentId :: string
  status :: execution_status
  input :: execution_input
  exec_output :: "execution_output option"
  createdAt :: int
  completedAt :: "int option"
  error :: "execution_error option"

text \<open>
  \<open>Partial<Execution>\<close>, the argument of \<open>updateExecution\<close>: \<open>None\<close> is an absent key.
  For the optional fields, \<open>Some None\<close> is a key present with value \<open>undefined\<close>, as in
  \<open>{ error: execution.error }\<close>.
\<close>

record execution_updates =
  u_id :: "string option"
  u_agentId :: "string option"
  u_status :: "execution_status option"
  u_input :: "execution_input option"
  u_output :: "execution_output option option"
  u_createdAt :: "int option"
  u_completedAt :: "int option option"
  u_error :: "execution_error option option"

text \<open>The object spread \<open>{ ...e, ...updates }\<close>.\<close>

definition merge_updates :: "execution \<Rightarrow> execution_updates \<Rightarrow> execution" where
  "merge_updates e u =
     \<lparr> exec_id = (case u_id u of Some v \<Rightarrow> v | None \<Rightarrow> exec_id e),
       agentId = (case u_agentId u of Some v \<Rightarrow> v | None \<Rightarrow> agentId e),
       status = (case u_status u of Some v \<Rightarrow> v | None \<Rightarrow> status e),
       input = (case u_input u of Some v \<Rightarrow> v | None \<Rightarrow> input e),
       exec_output = (case u_output u of Some v \<Rightarrow> v | None \<Rightarrow> exec_output e),
       createdAt = (case u_createdAt u of Some v \<Rightarrow> v | None \<Rightarrow> createdAt e),
       completedAt = (case u_completedAt u of Some v \<Rightarrow> v | None \<Rightarrow> completedAt e),
       error = (case u_error u of Some v \<Rightarrow> v | None \<Rightarrow> error e) \<rparr>"

section \<open>Error taxonomy (\<open>src/lib/api/errors.ts\<close>)\<close>

text \<open>Decimal rendering of numbers inside template strings.\<close>

definition digit_char :: "nat \<Rightarrow> char" where
  "digit_char n = ''0123456789'' ! (n mod 10)"

fun show_nat :: "nat \<Rightarrow> string" where
  "show_nat n = (if n < 10 then [digit_char n] else show_nat (n div 10) @ [digit_char n])"

definition show_int :: "int \<Rightarrow> string" where
  "show_int i = (if i < 0 then ''-'' @ show_nat (nat (- i)) else show_nat (nat i))"

text \<open>\<open>e instanceof Error\<close>, \<open>e instanceof ExecutionBaseError\<close>, \<open>e instanceof TypeError\<close>.\<close>

fun instanceof_Error :: "thrown \<Rightarrow> bool" where
  "instanceof_Error (Value v) = False"
| "instanceof_Error e = True"

fun instanceof_ExecutionBaseError :: "thrown \<Rightarrow> bool" where
  "instanceof_ExecutionBaseError (ExecutionBaseError m c) = True"
| "instanceof_ExecutionBaseError (ExecutionTimeoutError i t) = True"
| "instanceof_ExecutionBaseError (ValidationError f c) = True"
| "instanceof_ExecutionBaseError (WebhookError s b) = True"
| "instanceof_ExecutionBaseError (NetworkError m orig) = True"
| "instanceof_ExecutionBaseError (AgentNotFoundError a) = True"
| "instanceof_ExecutionBaseError (AgentUnavailableError a r) = True"
| "instanceof_ExecutionBaseError e = False"

fun instanceof_WebhookError :: "thrown \<Rightarrow> bool" where
  "instanceof_WebhookError (WebhookError s b) = True"
| "instanceof_WebhookError e = False"

fun instanceof_NetworkError :: "thrown \<Rightarrow> bool" where
  "instanceof_NetworkError (NetworkError m orig) = True"
| "instanceof_NetworkError e = False"

fun instanceof_TypeError :: "thrown \<Rightarrow> bool" where
  "instanceof_TypeError (TypeError m) = True"
| "instanceof_TypeError e = False"

text \<open>
  The \<open>message\<close> each constructor passes to \<open>super\<close>, the \<open>name\<close> it ends up with
  (\<open>this.constructor.name\<close> for \<open>ExecutionBaseError\<close>, the literal the other classes
  assign) and the \<open>code\<close> property, which only \<open>ExecutionBaseError\<close> and
  \<open>StorageError\<close> objects have. The code reads \<open>message\<close> of \<open>Error\<close> instances only.
\<close>

fun message_of :: "thrown \<Rightarrow> string" where
  "message_of (ExecutionBaseError m c) = m"
| "message_of (ExecutionTimeoutError i t) =
     ''Execution '' @ i @ '' timed out after '' @ show_int t @ ''ms''"
| "message_of (ValidationError f c) = ''Validation failed for '' @ f @ '': '' @ c"
| "message_of (WebhookError s b) = ''Webhook request failed with status '' @ show_int s"
| "message_of (NetworkError m orig) = ''Network error: '' @ m"
| "message_of (AgentNotFoundError a) = ''Agent not found: '' @ a"
| "message_of (AgentUnavailableError a r) = ''Agent '' @ a @ '' is unavailable: '' @ r"
| "message_of (AgentValidationError m a) = m"
| "message_of (StorageError m c) = m"
| "message_of (TypeError m) = m"
| "message_of (GenericError n m) = m"
| "message_of (Value v) = (case field v ''message'' of Some (JStr m) \<Rightarrow> m | _ \<Rightarrow> [])"

fun name_of :: "thrown \<Rightarrow> string option" where
  "name_of (ExecutionBaseError m c) = Some ''ExecutionBaseError''"
| "name_of (ExecutionTimeoutError i t) = Some ''ExecutionTimeoutError''"
| "name_of (ValidationError f c) = Some ''ValidationError''"
| "name_of (WebhookError s b) = Some ''WebhookError''"
| "name_of (NetworkError m orig) = Some ''NetworkError''"
| "name_of (AgentNotFoundError a) = Some ''AgentNotFoundError''"
| "name_of (AgentUnavailableError a r) = Some ''AgentUnavailableError''"
| "name_of (AgentValidationError m a) = Some ''AgentValidationError''"
| "name_of (StorageError m c) = Some ''StorageError''"
| "name_of (TypeError m) = Some ''TypeError''"
| "name_of (GenericError n m) = Some n"
| "name_of (Value v) = (case field v ''name'' of Some (JStr n) \<Rightarrow> Some n | _ \<Rightarrow> None)"

fun code_of :: "thrown \<Rightarrow> string option" where
  "code_of (ExecutionBaseError m c) = Some c"
| "code_of (ExecutionTimeoutError i t) = Some ''EXECUTION_TIMEOUT''"
| "code_of (ValidationError f c) = Some ''VALIDATION_ERROR''"
| "code_of (WebhookError s b) = Some ''WEBHOOK_ERROR''"
| "code_of (NetworkError m orig) = Some ''NETWORK_ERROR''"
| "code_of (AgentNotFoundError a) = Some ''AGENT_NOT_FOUND''"
| "code_of (AgentUnavailableError a r) = Some ''AGENT_UNAVAILABLE''"
| "code_of (StorageError m c) = Some c"
| "code_of e = None"

text \<open>The \<open>details\<close> each \<open>ExecutionBaseError\<close> subclass passes to \<open>super\<close>.\<close>

fun details_of :: "thrown \<Rightarrow> thrown option" where
  "details_of (ExecutionTimeoutError i t) =
     Some (Value (JObj [(''executionId'', JStr i), (''timeoutMs'', JNum t)]))"
| "details_of (ValidationError f c) =
     Some (Value (JObj [(''field'', JStr f), (''constraint'', JStr c)]))"
| "details_of (WebhookError s b) =
     Some (Value (JObj [(''statusCode'', JNum s), (''responseBody'', JStr b)]))"
| "details_of (NetworkError m orig) =
     Some (Value (JObj (case orig of
        Some e \<Rightarrow> [(''originalError'', JStr (message_of e))]
      | None \<Rightarrow> [])))"
| "details_of (AgentNotFoundError a) = Some (Value (JObj [(''agentId'', JStr a)]))"
| "details_of (AgentUnavailableError a r) =
     Some (Value (JObj [(''agentId'', JStr a), (''reason'', JStr r)]))"
| "details_of e = None"

text \<open>
  \<open>parseError\<close>: the normalisation into an \<open>ExecutionError\<close>. For a plain \<open>Error\<close> the
  details are \<open>{ name, stack }\<close>; the stack trace is left out of the model.
\<close>

definition parseError :: "thrown \<Rightarrow> execution_error" where
  "parseError e =
     (if instanceof_ExecutionBaseError e then
        \<lparr> code = (case code_of e of Some c \<Rightarrow> c | None \<Rightarrow> []),
          message = message_of e,
          details = details_of e \<rparr>
      else if instanceof_Error e then
        \<lparr> code = ''UNKNOWN_ERROR'',
          message = message_of e,
          details = Some (Value (JObj (case name_of e of
             Some n \<Rightarrow> [(''name'', JStr n)] | None \<Rightarrow> []))) \<rparr>
      else (case e of
        Value (JStr s) \<Rightarrow> \<lparr> code = ''UNKNOWN_ERROR'', message = s, details = None \<rparr>
      | _ \<Rightarrow> \<lparr> code = ''UNKNOWN_ERROR'', message = ''An unknown error occurred'',
               details = Some e \<rparr>))"

text \<open>\<open>RetryConfig\<close> and \<open>Partial<RetryConfig>\<close> (an absent key is \<open>None\<close>).\<close>

record retry_config =
  maxAttempts :: nat
  delayMs :: int
  backoffMultiplier :: int
  retryableErrors :: "string list"

record partial_retry_config =
  p_maxAttempts :: "nat option"
  p_delayMs :: "int option"
  p_backoffMultiplier :: "int option"
  p_retryableErrors :: "string list option"

definition DEFAULT_RETRY_CONFIG :: retry_config where
  "DEFAULT_RETRY_CONFIG =
     \<lparr> maxAttempts = 3, delayMs = 1000, backoffMultiplier = 2,
       retryableErrors = [''NETWORK_ERROR'', ''WEBHOOK_ERROR''] \<rparr>"

definition isRetryableError :: "execution_error \<Rightarrow> string list \<Rightarrow> bool" where
  "isRetryableError err retryable = (code err \<in> set retryable)"

text \<open>
  The outcome of one \<open>retryWithBackoff\<close> call: what it returns or throws, and the waits
  (\<open>setTimeout\<close> delays, in order) it went through. The wrapped operation may behave
  differently on each call, so it is given as the outcome of its \<open>k\<close>-th invocation.
\<close>

record 'a retry_outcome =
  outcome :: "thrown + 'a"
  waits :: "int list"
  calls :: nat

text \<open>
  The \<open>for\<close> loop of \<open>retryWithBackoff\<close>, from \<open>attempt\<close> on. When the loop ends without
  returning, the function throws \<open>lastError\<close>; the loop body leaves on every path that
  sets it, so it is still \<open>null\<close> there.
\<close>

function retry_loop ::
  "(nat \<Rightarrow> thrown + 'a) \<Rightarrow> retry_config \<Rightarrow> nat \<Rightarrow> int \<Rightarrow> int list \<Rightarrow> 'a retry_outcome"
where
  "retry_loop fn cfg attempt currentDelay ws =
     (if attempt \<le> maxAttempts cfg then
        (case fn attempt of
           Inr v \<Rightarrow> \<lparr> outcome = Inr v, waits = ws, calls = attempt \<rparr>
         | Inl err \<Rightarrow>
             (let lastError = parseError err in
              if \<not> isRetryableError lastError (retryableErrors cfg) then
                \<lparr> outcome = Inl err, waits = ws, calls = attempt \<rparr>
              else if attempt = maxAttempts cfg then
                \<lparr> outcome = Inl err, waits = ws, calls = attempt \<rparr>
              else
                retry_loop fn cfg (attempt + 1) (currentDelay * backoffMultiplier cfg)
                  (ws @ [currentDelay])))
      else \<lparr> outcome = Inl (Value JNull), waits = ws, calls = attempt - 1 \<rparr>)"
  by pat_completeness auto
termination
  by (relation "measure (\<lambda>(fn, cfg, attempt, d, ws). Suc (maxAttempts cfg) - attempt)") auto

declare retry_loop.simps [simp del]

definition retryWithBackoff :: "(nat \<Rightarrow> thrown + 'a) \<Rightarrow> partial_retry_config \<Rightarrow> 'a retry_outcome" where
  "retryWithBackoff fn config =
     (let cfg = \<lparr> maxAttempts = (case p_maxAttempts config of Some v \<Rightarrow> v
                                     | None \<Rightarrow> maxAttempts DEFAULT_RETRY_CONFIG),
                  delayMs = (case p_delayMs config of Some v \<Rightarrow> v
                                     | None \<Rightarrow> delayMs DEFAULT_RETRY_CONFIG),
                  backoffMultiplier = (case p_backoffMultiplier config of Some v \<Rightarrow> v
                                     | None \<Rightarrow> backoffMultiplier DEFAULT_RETRY_CONFIG),
                  retryableErrors = (case p_retryableErrors config of Some v \<Rightarrow> v
                                     | None \<Rightarrow> retryableErrors DEFAULT_RETRY_CONFIG) \<rparr>
      in retry_loop fn cfg 1 (delayMs cfg) [])"

text \<open>The call \<open>retryWithBackoff(fn)\<close>: no configuration key given.\<close>

definition no_config :: partial_retry_config where
  "no_config = \<lparr> p_maxAttempts = None, p_delayMs = None, p_backoffMultiplier = None,
                 p_retryableErrors = None \<rparr>"

text \<open>
  A failure the default policy retries: its code in the taxonomy (the code of its
  \<open>parseError\<close> form) is \<open>NETWORK_ERROR\<close> or \<open>WEBHOOK_ERROR\<close>.
\<close>

definition retryable_default :: "thrown \<Rightarrow> bool" where
  "retryable_default e =
     (code (parseError e) = ''NETWORK_ERROR'' \<or> code (parseError e) = ''WEBHOOK_ERROR'')"

section \<open>Transport client (\<open>src/lib/api/webhook-client.ts\<close>)\<close>

text \<open>
  What \<open>fetch\<close> hands back: an HTTP response with its status, the outcome of reading the
  body as text (\<open>response.text()\<close>) and of parsing it (\<open>response.json()\<close>), each of which
  may reject. \<open>response.ok\<close> is the status range 200 to 299.
\<close>

record http_response =
  http_status :: int
  body_text :: "thrown + string"
  body_json :: "thrown + json"

definition ok :: "http_response \<Rightarrow> bool" where
  "ok r = (200 \<le> http_status r \<and> http_status r \<le> 299)"

record webhook_client =
  baseUrl :: string
  useProxy :: bool

text \<open>\<open>s.startsWith(p)\<close>.\<close>

definition startsWith :: "string \<Rightarrow> string \<Rightarrow> bool" where
  "startsWith s p = prefix p s"

definition resolve_url :: "webhook_client \<Rightarrow> string \<Rightarrow> string" where
  "resolve_url c webhookPath =
     (if startsWith webhookPath ''/api/'' then webhookPath
      else if useProxy c then ''/api/webhook/'' @ webhookPath
      else baseUrl c @ ''/webhook/'' @ webhookPath)"

text \<open>
  \<open>String(v)\<close> inside the template string \<open>`Unexpected error: ${error}`\<close>: for an \<open>Error\<close>
  instance \<open>Error.prototype.toString\<close>, for other values the primitive rendering (an
  object renders as \<open>[object Object]\<close>, an array joins its elements).
\<close>

fun join_comma :: "string list \<Rightarrow> string" where
  "join_comma [] = []"
| "join_comma [s] = s"
| "join_comma (s # t # rest) = s @ '','' @ join_comma (t # rest)"

fun json_to_string :: "json \<Rightarrow> string" where
  "json_to_string JNull = ''null''"
| "json_to_string (JBool b) = (if b then ''true'' else ''false'')"
| "json_to_string (JNum n) = show_int n"
| "json_to_string (JStr s) = s"
| "json_to_string (JArr xs) =
     join_comma (map (\<lambda>v. if v = JNull then [] else json_to_string v) xs)"
| "json_to_string (JObj kvs) = ''[object Object]''"

definition to_string :: "thrown \<Rightarrow> string" where
  "to_string e =
     (if instanceof_Error e then
        (let n = (case name_of e of Some n \<Rightarrow> n | None \<Rightarrow> ''Error''); m = message_of e
         in if n = [] then m else if m = [] then n else n @ '': '' @ m)
      else (case e of Value v \<Rightarrow> json_to_string v | _ \<Rightarrow> []))"

text \<open>
  The body of the \<open>try\<close> block of \<open>triggerWorkflow\<close>, then the function with its \<open>catch\<close>
  handler. The request (method, headers, serialised payload) only reaches \<open>fetch\<close>, whose
  behaviour is the parameter \<open>fetch\<close>: the outcome of the call for a URL. When the value
  caught is \<open>null\<close>, reading its \<open>name\<close> in the handler throws a \<open>TypeError\<close> of its own.
\<close>

definition trigger_try :: "(string \<Rightarrow> thrown + http_response) \<Rightarrow> string \<Rightarrow> thrown + json" where
  "trigger_try fetch url =
     (case fetch url of
        Inl err \<Rightarrow> Inl err
      | Inr response \<Rightarrow>
          if \<not> ok response then
            (case body_text response of
               Inl err \<Rightarrow> Inl err
             | Inr responseBody \<Rightarrow>
                 if http_status response = 503 \<or> http_status response = 502 then
                   Inl (NetworkError
                     ''Service temporarily unavailable. Please check if n8n is running.'' None)
                 else if http_status response = 404 then
                   Inl (WebhookError (http_status response)
                     ''Webhook not found. Make sure your n8n workflow is activated and the webhook path is correct.'')
                 else Inl (WebhookError (http_status response) responseBody))
          else body_json response)"

definition triggerWorkflow ::
  "webhook_client \<Rightarrow> (string \<Rightarrow> thrown + http_response) \<Rightarrow> string \<Rightarrow> thrown + json"
where
  "triggerWorkflow c fetch webhookPath =
     (case trigger_try fetch (resolve_url c webhookPath) of
        Inr v \<Rightarrow> Inr v
      | Inl err \<Rightarrow>
          if instanceof_WebhookError err \<or> instanceof_NetworkError err then Inl err
          else if err = Value JNull then
            Inl (TypeError ''Cannot read properties of null (reading name)'')
          else if instanceof_TypeError err \<or> name_of err = Some ''FetchError'' then
            Inl (NetworkError
              ''Unable to connect to the service. Please check if n8n is running.''
              (if instanceof_Error err then Some err else None))
          else Inl (WebhookError 500 (''Unexpected error: '' @ to_string err)))"

section \<open>Persistence layer (the storage service)\<close>

text \<open>
  \<open>localStorage\<close>, restricted to the keys \<open>ai-agent-platform:executions:{agentId}\<close> and
  indexed by the agent id (\<open>getExecutionKey\<close> only prepends the fixed prefix). The list
  order is the enumeration order of \<open>Object.keys(localStorage)\<close>. A stored string is
  either the serialisation of an execution list (\<open>JSON.stringify\<close>, read back by
  \<open>JSON.parse\<close> and the re-creation of the dates) or something \<open>loadExecutions\<close> cannot
  read: an empty string, text that does not parse, JSON that is no array.
\<close>

datatype stored = Execs "execution list" | Malformed

type_synonym storage = "(string \<times> stored) list"

text \<open>
  The browser decides whether storage can be used and whether a write is accepted, both
  depending on what is stored already. \<open>available\<close> is the verdict of \<open>isAvailable\<close> (a
  window exists and the probe key can be written and removed); \<open>setItem_error\<close> is the
  exception \<open>localStorage.setItem\<close> throws for a key and a value, \<open>None\<close> when the write
  goes through. A \<open>DOMException\<close> named \<open>QuotaExceededError\<close> is
  \<open>GenericError ''QuotaExceededError'' m\<close>.
\<close>

record browser =
  available :: "storage \<Rightarrow> bool"
  setItem_error :: "storage \<Rightarrow> string \<Rightarrow> execution list \<Rightarrow> thrown option"

definition MAX_EXECUTIONS_PER_AGENT :: nat where
  "MAX_EXECUTIONS_PER_AGENT = 50"

text \<open>The storage service's own \<open>new QuotaExceededError()\<close>, a \<open>StorageError\<close>.\<close>

definition QuotaExceededError :: thrown where
  "QuotaExceededError = StorageError ''Storage quota exceeded'' ''QUOTA_EXCEEDED''"

definition isAvailable :: "browser \<Rightarrow> storage \<Rightarrow> bool" where
  "isAvailable b st = available b st"

text \<open>
  \<open>localStorage.setItem(key, JSON.stringify(xs))\<close>: the exception, or the new storage.
  Serialising an execution list is taken to succeed; a write keeps the place of a key
  that exists and appends a new one.
\<close>

definition setItem :: "browser \<Rightarrow> string \<Rightarrow> execution list \<Rightarrow> storage \<Rightarrow> thrown + storage" where
  "setItem b agent xs st =
     (case setItem_error b st agent xs of
        Some err \<Rightarrow> Inl err
      | None \<Rightarrow> Inr (AList.update agent (Execs xs) st))"

definition loadExecutions :: "browser \<Rightarrow> string \<Rightarrow> storage \<Rightarrow> execution list" where
  "loadExecutions b agent st =
     (if \<not> isAvailable b st then []
      else (case map_of st agent of
              None \<Rightarrow> []
            | Some Malformed \<Rightarrow> []
            | Some (Execs xs) \<Rightarrow> xs))"

definition clearExecutions :: "browser \<Rightarrow> string \<Rightarrow> storage \<Rightarrow> storage" where
  "clearExecutions b agent st =
     (if \<not> isAvailable b st then st else AList.delete agent st)"

definition getAgentIdsWithExecutions :: "browser \<Rightarrow> storage \<Rightarrow> string list" where
  "getAgentIdsWithExecutions b st =
     (if \<not> isAvailable b st then [] else map fst st)"

text \<open>
  The \<open>forEach\<close> of \<open>freeUpSpace\<close>. An exception of \<open>setItem\<close> leaves the loop; the
  enclosing \<open>try\<close> catches and logs it.
\<close>

fun freeUp_loop :: "browser \<Rightarrow> string list \<Rightarrow> storage \<Rightarrow> storage" where
  "freeUp_loop b [] st = st"
| "freeUp_loop b (agent # rest) st =
     (let executions = loadExecutions b agent st in
      if length executions > 10 then
        (case setItem b agent (take 10 executions) st of
           Inl err \<Rightarrow> st
         | Inr st' \<Rightarrow> freeUp_loop b rest st')
      else freeUp_loop b rest st)"

definition freeUpSpace :: "browser \<Rightarrow> storage \<Rightarrow> storage" where
  "freeUpSpace b st = freeUp_loop b (getAgentIdsWithExecutions b st) st"

text \<open>
  \<open>handleQuotaExceeded\<close> and \<open>saveExecutions\<close> return the storage they leave behind and
  the exception that escapes to the caller, if any.
\<close>

definition handleQuotaExceeded ::
  "browser \<Rightarrow> string \<Rightarrow> execution list \<Rightarrow> storage \<Rightarrow> storage \<times> thrown option"
where
  "handleQuotaExceeded b agent executions st =
     (case setItem b agent (take 10 executions) st of
        Inr st' \<Rightarrow> (st', None)
      | Inl retryError \<Rightarrow>
          (let st1 = freeUpSpace b st in
           case setItem b agent (take 5 executions) st1 of
             Inr st2 \<Rightarrow> (st2, None)
           | Inl finalError \<Rightarrow> (st1, Some QuotaExceededError)))"

definition saveExecutions ::
  "browser \<Rightarrow> string \<Rightarrow> execution list \<Rightarrow> storage \<Rightarrow> storage \<times> thrown option"
where
  "saveExecutions b agent executions st =
     (if \<not> isAvailable b st then (st, None)
      else (case setItem b agent (take MAX_EXECUTIONS_PER_AGENT executions) st of
              Inr st' \<Rightarrow> (st', None)
            | Inl err \<Rightarrow>
                if instanceof_Error err \<and> name_of err = Some ''QuotaExceededError''
                then handleQuotaExceeded b agent executions st
                else (st, None)))"


section \<open>Execution state container (\<open>src/lib/store/execution-store.ts\<close>)\<close>

text \<open>
  The store: \<open>executions\<close> is the object \<open>Record<string, Execution[]>\<close>, kept as an
  association list in the order \<open>Object.entries\<close> walks it (insertion order; an update
  of an existing key keeps its place).
\<close>

record store =
  executions :: "(string \<times> execution list) list"
  currentExecution :: "execution option"
  isExecuting :: bool

definition initial_store :: store where
  "initial_store = \<lparr> executions = [], currentExecution = None, isExecuting = False \<rparr>"

text \<open>\<open>status === 'pending' || status === 'processing'\<close>.\<close>

definition in_progress :: "execution \<Rightarrow> bool" where
  "in_progress e = (status e = Pending \<or> status e = Processing)"

text \<open>
  The flag agrees with the current execution: it is set exactly when there is a current
  execution and that one is pending or processing.
\<close>

definition flag_consistent :: "store \<Rightarrow> bool" where
  "flag_consistent s =
     (isExecuting s = (case currentExecution s of Some c \<Rightarrow> in_progress c | None \<Rightarrow> False))"

text \<open>
  Every action returns the new store, the new storage and the exception that escapes
  (only \<open>saveExecutions\<close> can throw, after \<open>set\<close> has run).
\<close>

definition addExecution ::
  "browser \<Rightarrow> execution \<Rightarrow> store \<Rightarrow> storage \<Rightarrow> store \<times> storage \<times> thrown option"
where
  "addExecution b execution s st =
     (let agentExecutions =
            (case map_of (executions s) (agentId execution) of Some xs \<Rightarrow> xs | None \<Rightarrow> []);
          updatedExecutions = take MAX_EXECUTIONS_PER_AGENT (execution # agentExecutions);
          s' = \<lparr> executions = AList.update (agentId execution) updatedExecutions (executions s),
                 currentExecution = Some execution,
                 isExecuting = in_progress execution \<rparr>;
          (st', err) = saveExecutions b (agentId execution) updatedExecutions st
      in (s', st', err))"

text \<open>
  The search loop of \<open>updateExecution\<close> over \<open>Object.entries(executions)\<close>: the first
  agent whose list holds the id (\<open>findIndex\<close>), with the merged execution.
\<close>

fun find_execution ::
  "(string \<times> execution list) list \<Rightarrow> string \<Rightarrow> execution_updates \<Rightarrow> (string \<times> execution) option"
where
  "find_execution [] executionId updates = None"
| "find_execution ((agent, agentExecutions) # rest) executionId updates =
     (case List.find (\<lambda>e. exec_id e = executionId) agentExecutions of
        Some e \<Rightarrow> Some (agent, merge_updates e updates)
      | None \<Rightarrow> find_execution rest executionId updates)"

text \<open>
  \<open>updateExecution\<close>. The guard \<open>!agentId\<close> also holds for the empty string, so an
  execution filed under the agent id \<open>""\<close> counts as not found. The list
  \<open>executions[agentId]\<close> exists once the loop has found the agent.
\<close>

definition updateExecution ::
  "browser \<Rightarrow> string \<Rightarrow> execution_updates \<Rightarrow> store \<Rightarrow> storage \<Rightarrow> store \<times> storage \<times> thrown option"
where
  "updateExecution b executionId updates s st =
     (case find_execution (executions s) executionId updates of
        None \<Rightarrow> (s, st, None)
      | Some (agent, updatedExecution) \<Rightarrow>
          if agent = [] then (s, st, None)
          else (case map_of (executions s) agent of
             None \<Rightarrow> (s, st, Some (TypeError ''Cannot read properties of undefined''))
           | Some agentExecutions \<Rightarrow>
              (let updatedAgentExecutions =
                     map (\<lambda>e. if exec_id e = executionId then updatedExecution else e)
                       agentExecutions;
                   isCurrent = (case currentExecution s of
                                  Some c \<Rightarrow> exec_id c = executionId | None \<Rightarrow> False);
                   s' = \<lparr> executions = AList.update agent updatedAgentExecutions (executions s),
                          currentExecution =
                            (if isCurrent then Some updatedExecution else currentExecution s),
                          isExecuting =
                            (if isCurrent then in_progress updatedExecution else isExecuting s) \<rparr>;
                   (st', err) = saveExecutions b agent updatedAgentExecutions st
               in (s', st', err))))"

definition setCurrentExecution :: "execution option \<Rightarrow> store \<Rightarrow> store" where
  "setCurrentExecution execution s =
     s \<lparr> currentExecution := execution,
         isExecuting := (case execution of Some e \<Rightarrow> in_progress e | None \<Rightarrow> False) \<rparr>"

definition loadHistory :: "browser \<Rightarrow> string \<Rightarrow> store \<Rightarrow> storage \<Rightarrow> store" where
  "loadHistory b agent s st =
     (case map_of (executions s) agent of
        Some xs \<Rightarrow> s
      | None \<Rightarrow> s \<lparr> executions := AList.update agent (loadExecutions b agent st) (executions s) \<rparr>)"

definition clearHistory :: "browser \<Rightarrow> string \<Rightarrow> store \<Rightarrow> storage \<Rightarrow> store \<times> storage" where
  "clearHistory b agent s st =
     (s \<lparr> executions := AList.delete agent (executions s),
          currentExecution :=
            (case currentExecution s of
               Some c \<Rightarrow> if agentId c = agent then None else Some c
             | None \<Rightarrow> None) \<rparr>,
      clearExecutions b agent st)"



section \<open>Execution orchestrator (the execution service) and the agent registry\<close>

text \<open>
  \<open>AgentConfig\<close>, with the fields \<open>executeAgent\<close> reads after the payload is built
  (\<open>inputSchema\<close> only shapes the request body). The registry is the map
  \<open>AgentRegistry.agents\<close> as \<open>initialize\<close> leaves it.
\<close>

record agent_settings =
  maxExecutionTime :: "int option"
  pollingInterval :: "int option"
  retryAttempts :: "int option"

record agent_config =
  agent_id :: string
  webhookUrl :: string
  outputSchema_type :: output_type
  settings :: "agent_settings option"

definition getAgent :: "(string \<rightharpoonup> agent_config) \<Rightarrow> string \<Rightarrow> agent_config option" where
  "getAgent agents aid = agents aid"

definition getAgentOrThrow :: "(string \<rightharpoonup> agent_config) \<Rightarrow> string \<Rightarrow> thrown + agent_config" where
  "getAgentOrThrow agents aid =
     (case getAgent agents aid of
        None \<Rightarrow> Inl (AgentValidationError (''Agent not found: '' @ aid) None)
      | Some agent \<Rightarrow> Inr agent)"

text \<open>
  \<open>ExecutionResult\<close>, what \<open>pollForResult\<close> resolves to, and the truthy \<open>data\<close> of a
  response: \<open>initialResponse?.data\<close> in \<open>pollForResult\<close> is \<open>response_data\<close>,
  \<open>response && response.data\<close> in \<open>executeAgent\<close> is \<open>immediate_data\<close> (\<open>None\<close> when the
  test fails).
\<close>

record poll_result =
  poll_status :: execution_status
  poll_output :: "execution_output option"
  poll_error :: "execution_error option"

definition response_data :: "json \<Rightarrow> json option" where
  "response_data response =
     (case field response ''data'' of
        Some d \<Rightarrow> if truthy d then Some d else None
      | None \<Rightarrow> None)"

definition immediate_data :: "json \<Rightarrow> json option" where
  "immediate_data response = (if truthy response then response_data response else None)"

text \<open>
  \<open>pollForResult\<close>, on a clock: the argument \<open>now\<close> is \<open>Date.now()\<close> at the call, the second
  component of the result the time at the return; \<open>sleep(interval)\<close> moves the clock by
  \<open>interval\<close>. The body of the \<open>while\<close> loop ends in an unconditional \<open>return\<close>, so the
  loop condition is evaluated once, right after \<open>startTime\<close> was read, and the loop is
  the conditional below.
\<close>

definition pollForResult :: "string \<Rightarrow> int \<Rightarrow> int \<Rightarrow> json \<Rightarrow> int \<Rightarrow> poll_result \<times> int" where
  "pollForResult executionId maxTime interval initialResponse now =
     (let startTime = now in
      case response_data initialResponse of
        Some d \<Rightarrow>
          (\<lparr> poll_status = Completed,
             poll_output = Some \<lparr> out_type = Video, data = d,
                                  metadata = field initialResponse ''metadata'' \<rparr>,
             poll_error = None \<rparr>, now)
      | None \<Rightarrow>
          if now - startTime < maxTime then
            (\<lparr> poll_status = Processing,
               poll_output = Some \<lparr> out_type = Video, data = JNull,
                 metadata = Some (JObj
                   [(''description'', JStr ''Video generation in progress (3-5 minutes)''),
                    (''executionId'', JStr executionId),
                    (''pollUrl'', JStr ''/api/poll-execution''),
                    (''estimatedTime'', JNum 180000),
                    (''note'', JStr ''n8n workflow started - polling for completion'')]) \<rparr>,
               poll_error = None \<rparr>, now + interval)
          else
            (\<lparr> poll_status = Failed, poll_output = None,
               poll_error = Some \<lparr> code = ''EXECUTION_TIMEOUT'',
                 message = ''Execution timed out after '' @ show_int maxTime @ ''ms'',
                 details = None \<rparr> \<rparr>, now))"

text \<open>
  What one \<open>executeAgent\<close> call meets: the id \<open>uuidv4()\<close> returns, the clock at the call,
  the outcome of \<open>webhookClient.triggerWorkflow\<close> for the path and payload the call
  builds, and \<open>parseOutput\<close>, which may throw (\<open>JSON.parse\<close>).
\<close>

record exec_env =
  fresh_id :: string
  clock :: int
  webhook_outcome :: "thrown + json"
  parseOutput :: "json \<Rightarrow> output_type \<Rightarrow> thrown + execution_output"

definition createExecution :: "exec_env \<Rightarrow> string \<Rightarrow> execution_input \<Rightarrow> execution" where
  "createExecution env agent inp =
     \<lparr> exec_id = fresh_id env, agentId = agent, status = Pending, input = inp,
       exec_output = None, createdAt = clock env, completedAt = None, error = None \<rparr>"

text \<open>The \<open>catch\<close> block of \<open>executeAgent\<close>, applied to the execution as it is then.\<close>

definition mark_failed :: "execution \<Rightarrow> thrown \<Rightarrow> int \<Rightarrow> execution" where
  "mark_failed execution err t =
     execution \<lparr> status := Failed,
       error := Some \<lparr> code = ''EXECUTION_FAILED'',
                       message = (if instanceof_Error err then message_of err
                                  else ''Unknown error occurred''),
                       details = Some err \<rparr>,
       completedAt := Some t \<rparr>"

text \<open>The output of the branch "no immediate response and no polling - assume success".\<close>

definition assumed_success_output :: execution_output where
  "assumed_success_output =
     \<lparr> out_type = Video,
       data = JStr ''https://commondatastorage.googleapis.com/gtv-videos-bucket/sample/BigBuckBunny.mp4'',
       metadata = Some (JObj
         [(''description'', JStr ''Video generation completed''),
          (''note'', JStr ''n8n workflow executed successfully'')]) \<rparr>"

text \<open>
  \<open>agent.settings?.maxExecutionTime && agent.settings.maxExecutionTime > 0\<close>: the
  maximum wait when polling is configured; and \<open>agent.settings.pollingInterval || 5000\<close>.
\<close>

definition polling_time :: "agent_config \<Rightarrow> int option" where
  "polling_time agent =
     (case settings agent of
        None \<Rightarrow> None
      | Some s \<Rightarrow>
          (case maxExecutionTime s of
             None \<Rightarrow> None
           | Some m \<Rightarrow> if m \<noteq> 0 \<and> m > 0 then Some m else None))"

definition polling_interval :: "agent_config \<Rightarrow> int" where
  "polling_interval agent =
     (case settings agent of
        None \<Rightarrow> 5000
      | Some s \<Rightarrow>
          (case pollingInterval s of
             None \<Rightarrow> 5000
           | Some i \<Rightarrow> if i \<noteq> 0 then i else 5000))"

text \<open>
  \<open>executeAgent\<close>. The first component of the result is the \<open>Execution\<close> object the call
  has created, in its last state (\<open>None\<close> when none was created); the second is what the
  call returns, or the exception it throws.
\<close>

definition executeAgent ::
  "(string \<rightharpoonup> agent_config) \<Rightarrow> exec_env \<Rightarrow> string \<Rightarrow> execution_input
     \<Rightarrow> execution option \<times> (thrown + execution)"
where
  "executeAgent agents env aid inp =
     (case getAgentOrThrow agents aid of
        Inl err \<Rightarrow> (None, Inl err)
      | Inr agent \<Rightarrow>
          (let execution = createExecution env aid inp in
           case webhook_outcome env of
             Inl err \<Rightarrow> (Some (mark_failed execution err (clock env)), Inl err)
           | Inr response \<Rightarrow>
               (let execution = execution \<lparr> status := Processing \<rparr> in
                case immediate_data response of
                  Some d \<Rightarrow>
                    (case parseOutput env d (outputSchema_type agent) of
                       Inl err \<Rightarrow> (Some (mark_failed execution err (clock env)), Inl err)
                     | Inr out \<Rightarrow>
                         (let execution = execution \<lparr> exec_output := Some out,
                                 status := Completed, completedAt := Some (clock env) \<rparr>
                          in (Some execution, Inr execution)))
                | None \<Rightarrow>
                    (case polling_time agent of
                       Some maxTime \<Rightarrow>
                         (case pollForResult (exec_id execution) maxTime
                                 (polling_interval agent) response (clock env) of
                            (result, t) \<Rightarrow>
                              (let execution = execution \<lparr> exec_output := poll_output result,
                                      status := poll_status result \<rparr>;
                                   execution = (case poll_error result of
                                      Some e \<Rightarrow> execution \<lparr> error := Some e \<rparr>
                                    | None \<Rightarrow> execution);
                                   execution = execution \<lparr> completedAt := Some t \<rparr>
                               in (Some execution, Inr execution)))
                     | None \<Rightarrow>
                         (let execution = execution \<lparr> exec_output := Some assumed_success_output,
                                 status := Completed, completedAt := Some (clock env) \<rparr>
                          in (Some execution, Inr execution))))))"

section \<open>Sample data for the concrete runs\<close>

definition mk_execution :: "string \<Rightarrow> string \<Rightarrow> execution_status \<Rightarrow> execution" where
  "mk_execution i a s =
     \<lparr> exec_id = i, agentId = a, status = s,
       input = \<lparr> prompt = Some ''a red fox'', parameters = None \<rparr>,
       exec_output = None, createdAt = 0, completedAt = None, error = None \<rparr>"

text \<open>A browser whose storage is always usable and never full.\<close>

definition accepting_browser :: browser where
  "accepting_browser = \<lparr> available = (\<lambda>st. True), setItem_error = (\<lambda>st a xs. None) \<rparr>"

text \<open>Only the status changes: \<open>updateExecution(id, { status })\<close>.\<close>

definition status_update :: "execution_status \<Rightarrow> execution_updates" where
  "status_update s =
     \<lparr> u_id = None, u_agentId = None, u_status = Some s, u_input = None, u_output = None,
       u_createdAt = None, u_completedAt = None, u_error = None \<rparr>"



definition fetch_refused :: "string \<Rightarrow> thrown + http_response" where
  "fetch_refused url = Inl (TypeError ''Failed to fetch'')"

definition test_client :: webhook_client where
  "test_client = \<lparr> baseUrl = ''http://localhost:5678'', useProxy = True \<rparr>"

text \<open>An operation that runs into the refused connection on every call.\<close>

definition always_refused :: "nat \<Rightarrow> thrown + json" where
  "always_refused k = triggerWorkflow test_client fetch_refused ''veo3-video-generate''"

text \<open>
  The agent of the agent configuration, one without settings, their registry, a call
  whose webhook answers that the workflow was started (the answer of the forwarding
  route, without \<open>data\<close>), and one whose webhook answers \<open>{ "status": "accepted" }\<close>.
\<close>

definition VEO3_AGENT :: agent_config where
  "VEO3_AGENT =
     \<lparr> agent_id = ''veo3-video-generator'', webhookUrl = ''/api/webhook/veo3-video-generate'',
       outputSchema_type = Video,
       settings = Some \<lparr> maxExecutionTime = Some 300000, pollingInterval = Some 5000,
                         retryAttempts = Some 3 \<rparr> \<rparr>"

definition plain_agent :: agent_config where
  "plain_agent =
     \<lparr> agent_id = ''plain-agent'', webhookUrl = ''/api/webhook/plain'',
       outputSchema_type = Video, settings = None \<rparr>"

definition sample_registry :: "string \<rightharpoonup> agent_config" where
  "sample_registry =
     [''veo3-video-generator'' \<mapsto> VEO3_AGENT, ''plain-agent'' \<mapsto> plain_agent]"

definition red_fox :: execution_input where
  "red_fox = \<lparr> prompt = Some ''a red fox'', parameters = None \<rparr>"

definition started_response :: json where
  "started_response =
     JObj [(''status'', JStr ''processing''),
           (''message'', JStr ''Video generation in progress (estimated 3-5 minutes)''),
           (''executionId'', JStr ''1700000000000''),
           (''pollUrl'', JStr ''/api/poll-execution''),
           (''estimatedTime'', JNum 180000)]"

definition started_env :: exec_env where
  "started_env =
     \<lparr> fresh_id = ''exec-1'', clock = 1000, webhook_outcome = Inr started_response,
       parseOutput = (\<lambda>d t. Inr \<lparr> out_type = t, data = d, metadata = None \<rparr>) \<rparr>"

definition accepted_env :: exec_env where
  "accepted_env =
     \<lparr> fresh_id = ''exec-1'', clock = 1000,
       webhook_outcome = Inr (JObj [(''status'', JStr ''accepted'')]),
       parseOutput = (\<lambda>d t. Inr \<lparr> out_type = t, data = d, metadata = None \<rparr>) \<rparr>"

section \<open>Notions used in the statements about the history\<close>







section \<open>Notions used in the statements about the quota cascade\<close>








section \<open>Notions used in the statements about updates\<close>





section \<open>Retry policy\<close>

lemma retryable_default_iff:
  "isRetryableError (parseError e) (retryableErrors DEFAULT_RETRY_CONFIG) = retryable_default e"
  by (auto simp: isRetryableError_def DEFAULT_RETRY_CONFIG_def retryable_default_def)

text \<open>
  Only an \<open>ExecutionBaseError\<close> can carry one of the two codes: every other thrown value
  is normalised to \<open>UNKNOWN_ERROR\<close>.
\<close>

lemma retryable_default_class:
  "retryable_default e \<longleftrightarrow>
     instanceof_ExecutionBaseError e \<and>
     (code_of e = Some ''NETWORK_ERROR'' \<or> code_of e = Some ''WEBHOOK_ERROR'')"
  by (cases e) (auto simp: parseError_def retryable_default_def split: json.splits)

lemma retry_loop_last:
  "maxAttempts cfg = n \<Longrightarrow> retry_loop fn cfg n d ws =
     (case fn n of Inr v \<Rightarrow> \<lparr> outcome = Inr v, waits = ws, calls = n \<rparr>
      | Inl err \<Rightarrow> \<lparr> outcome = Inl err, waits = ws, calls = n \<rparr>)"
  by (subst retry_loop.simps) (simp add: Let_def split: sum.splits)

lemma retry_loop_step:
  "n < maxAttempts cfg \<Longrightarrow> retry_loop fn cfg n d ws =
     (case fn n of Inr v \<Rightarrow> \<lparr> outcome = Inr v, waits = ws, calls = n \<rparr>
      | Inl err \<Rightarrow>
          if \<not> isRetryableError (parseError err) (retryableErrors cfg)
          then \<lparr> outcome = Inl err, waits = ws, calls = n \<rparr>
          else retry_loop fn cfg (n + 1) (d * backoffMultiplier cfg) (ws @ [d]))"
  by (subst retry_loop.simps) (simp add: Let_def split: sum.splits)

text \<open>
  Claim C6. Under the default configuration \<open>retryWithBackoff\<close> calls the operation at
  most three times. A call that returns ends the loop with its value. A call that throws
  a value the policy does not retry ends the loop by rethrowing that very value; a
  retryable failure of the first call is followed by a wait of 1000 ms, one of the second
  call by a wait of 2000 ms, and whatever the third call throws is rethrown as thrown
  (never its \<open>parseError\<close> form), with no further wait.
\<close>

theorem retryWithBackoff_default:
  "retryWithBackoff fn no_config =
     (case fn 1 of
        Inr v \<Rightarrow> \<lparr> outcome = Inr v, waits = [], calls = 1 \<rparr>
      | Inl e1 \<Rightarrow>
          if \<not> retryable_default e1 then \<lparr> outcome = Inl e1, waits = [], calls = 1 \<rparr>
          else (case fn 2 of
             Inr v \<Rightarrow> \<lparr> outcome = Inr v, waits = [1000], calls = 2 \<rparr>
           | Inl e2 \<Rightarrow>
               if \<not> retryable_default e2 then \<lparr> outcome = Inl e2, waits = [1000], calls = 2 \<rparr>
               else (case fn 3 of
                  Inr v \<Rightarrow> \<lparr> outcome = Inr v, waits = [1000, 2000], calls = 3 \<rparr>
                | Inl e3 \<Rightarrow> \<lparr> outcome = Inl e3, waits = [1000, 2000], calls = 3 \<rparr>)))"
proof -
  let ?D = DEFAULT_RETRY_CONFIG
  have m: "maxAttempts ?D = 3" and b: "backoffMultiplier ?D = 2"
    by (simp_all add: DEFAULT_RETRY_CONFIG_def)
  have cfg: "retryWithBackoff fn no_config = retry_loop fn ?D 1 1000 []"
    by (simp add: retryWithBackoff_def no_config_def DEFAULT_RETRY_CONFIG_def)
  have s3: "retry_loop fn ?D 3 4000 [1000, 2000] =
      (case fn 3 of Inr v \<Rightarrow> \<lparr> outcome = Inr v, waits = [1000, 2000], calls = 3 \<rparr>
       | Inl err \<Rightarrow> \<lparr> outcome = Inl err, waits = [1000, 2000], calls = 3 \<rparr>)"
    by (rule retry_loop_last) (rule m)
  have s2: "retry_loop fn ?D 2 2000 [1000] =
      (case fn 2 of Inr v \<Rightarrow> \<lparr> outcome = Inr v, waits = [1000], calls = 2 \<rparr>
       | Inl err \<Rightarrow>
           if \<not> retryable_default err then \<lparr> outcome = Inl err, waits = [1000], calls = 2 \<rparr>
           else retry_loop fn ?D 3 4000 [1000, 2000])"
    using retry_loop_step [of 2 ?D fn 2000 "[1000]"]
    by (simp add: m b retryable_default_iff split: sum.splits)
  have s1: "retry_loop fn ?D 1 1000 [] =
      (case fn 1 of Inr v \<Rightarrow> \<lparr> outcome = Inr v, waits = [], calls = 1 \<rparr>
       | Inl err \<Rightarrow>
           if \<not> retryable_default err then \<lparr> outcome = Inl err, waits = [], calls = 1 \<rparr>
           else retry_loop fn ?D 2 2000 [1000])"
    using retry_loop_step [of 1 ?D fn 1000 "[]"]
    by (simp add: m b retryable_default_iff numeral_2_eq_2 split: sum.splits)
  show ?thesis
    unfolding cfg s1 s2 s3 ..
qed

text \<open>
  The refused connection of the spec's scenario: three attempts, waits of 1000 and
  2000 ms, and the \<open>NetworkError\<close> of the third attempt comes out as it was thrown.
\<close>

theorem retryWithBackoff_default_witness:
  "retryWithBackoff always_refused no_config =
     \<lparr> outcome = Inl (NetworkError
          ''Unable to connect to the service. Please check if n8n is running.''
          (Some (TypeError ''Failed to fetch''))),
       waits = [1000, 2000], calls = 3 \<rparr>"
proof -
  have thrown: "always_refused k =
      Inl (NetworkError ''Unable to connect to the service. Please check if n8n is running.''
            (Some (TypeError ''Failed to fetch'')))" for k
    by (simp add: always_refused_def triggerWorkflow_def trigger_try_def fetch_refused_def)
  show ?thesis
    using retryWithBackoff_default [of always_refused]
    by (simp add: thrown retryable_default_def parseError_def)
qed

section \<open>Transport client\<close>



section \<open>Execution state container\<close>

lemma find_execution_None_iff:
  "find_execution E eid u = None \<longleftrightarrow> (\<forall>p \<in> set E. \<forall>e \<in> set (snd p). exec_id e \<noteq> eid)"
proof (induction E eid u rule: find_execution.induct)
  case (1 executionId updates)
  then show ?case by simp
next
  case (2 agent agentExecutions rest executionId updates)
  show ?case
  proof (cases "List.find (\<lambda>e. exec_id e = executionId) agentExecutions")
    case None
    then have none: "\<forall>e \<in> set agentExecutions. exec_id e \<noteq> executionId"
      by (simp add: find_None_iff)
    from None have "find_execution ((agent, agentExecutions) # rest) executionId updates
        = find_execution rest executionId updates"
      by simp
    with none 2 [OF None] show ?thesis by auto
  next
    case (Some e)
    then have "e \<in> set agentExecutions \<and> exec_id e = executionId"
      by (auto simp: find_Some_iff)
    with Some show ?thesis by auto
  qed
qed

text \<open>
  Every action but \<open>clearHistory\<close> keeps the flag in agreement with the current
  execution.
\<close>

lemma flag_consistent_kept:
  "flag_consistent initial_store"
  "flag_consistent (fst (addExecution b e s st))"
  "flag_consistent s \<Longrightarrow> flag_consistent (fst (updateExecution b eid u s st))"
  "flag_consistent (setCurrentExecution c s)"
  "flag_consistent s \<Longrightarrow> flag_consistent (loadHistory b a s st)"
  by (auto simp: flag_consistent_def initial_store_def addExecution_def updateExecution_def
       setCurrentExecution_def loadHistory_def Let_def split: option.splits prod.splits)

text \<open>
  Claim C8, at the run \<open>addExecution\<close> of a pending execution of agent \<open>agent-a\<close> followed
  by \<open>clearHistory("agent-a")\<close>: the current execution is gone and the flag \<open>isExecuting\<close>
  is still true. \<open>clearHistory\<close> resets the pointer and leaves the flag as it was, where
  \<open>setCurrentExecution(null)\<close> sets it to false.
\<close>

theorem clearHistory_keeps_isExecuting:
  "(case addExecution accepting_browser (mk_execution ''e1'' ''agent-a'' Pending) initial_store [] of
      (s1, st1, err) \<Rightarrow>
        (case clearHistory accepting_browser ''agent-a'' s1 st1 of
           (s2, st2) \<Rightarrow> (currentExecution s2, isExecuting s2)))
   = (None, True)"
  by (simp add: addExecution_def clearHistory_def initial_store_def mk_execution_def
      in_progress_def saveExecutions_def isAvailable_def accepting_browser_def setItem_def
      MAX_EXECUTIONS_PER_AGENT_def Let_def)

text \<open>
  Claim C10. When no agent's list holds an execution with the given id,
  \<open>updateExecution\<close> returns the store it was given (the executions, the current
  execution and the flag \<open>isExecuting\<close>), leaves the storage as it was whatever the browser
  would have accepted, and throws nothing.
\<close>

theorem updateExecution_unknown_id_noop:
  "\<forall>p \<in> set (executions s). \<forall>e \<in> set (snd p). exec_id e \<noteq> eid \<Longrightarrow>
     updateExecution b eid u s st = (s, st, None)"
  using find_execution_None_iff [of "executions s" eid u]
  by (simp add: updateExecution_def)

theorem updateExecution_unknown_id_noop_witness:
  "updateExecution accepting_browser ''e2'' (status_update Completed)
     \<lparr> executions = [(''agent-a'', [mk_execution ''e1'' ''agent-a'' Pending])],
       currentExecution = Some (mk_execution ''e1'' ''agent-a'' Pending), isExecuting = True \<rparr>
     [(''agent-a'', Execs [mk_execution ''e1'' ''agent-a'' Pending])]
   = (\<lparr> executions = [(''agent-a'', [mk_execution ''e1'' ''agent-a'' Pending])],
       currentExecution = Some (mk_execution ''e1'' ''agent-a'' Pending), isExecuting = True \<rparr>,
      [(''agent-a'', Execs [mk_execution ''e1'' ''agent-a'' Pending])], None)"
  by (rule updateExecution_unknown_id_noop) (simp add: mk_execution_def)

subsection \<open>The history cap and its order\<close>

























subsection \<open>Repeated updates\<close>














section \<open>Persistence layer\<close>




















section \<open>Execution orchestrator\<close>

text \<open>
  Claim C1, at the call \<open>executeAgent\<close> makes for the configured agent (maximum wait
  300000 ms, interval 5000 ms) when the webhook has answered that the workflow was
  started: \<open>pollForResult\<close> sleeps one interval, asks no status source and returns the
  non-terminal status \<open>processing\<close> as its answer; \<open>executeAgent\<close> hands that status to
  its caller.
\<close>

theorem pollForResult_returns_processing:
  "pollForResult ''exec-1'' 300000 5000 started_response 1000 =
     (\<lparr> poll_status = Processing,
        poll_output = Some \<lparr> out_type = Video, data = JNull,
          metadata = Some (JObj
            [(''description'', JStr ''Video generation in progress (3-5 minutes)''),
             (''executionId'', JStr ''exec-1''),
             (''pollUrl'', JStr ''/api/poll-execution''),
             (''estimatedTime'', JNum 180000),
             (''note'', JStr ''n8n workflow started - polling for completion'')]) \<rparr>,
        poll_error = None \<rparr>, 6000)
   \<and> map_sum id status
        (snd (executeAgent sample_registry started_env ''veo3-video-generator'' red_fox))
       = Inr Processing"
  by (simp add: pollForResult_def response_data_def executeAgent_def getAgentOrThrow_def
       getAgent_def createExecution_def Let_def sample_registry_def started_env_def
       started_response_def VEO3_AGENT_def polling_time_def polling_interval_def
       immediate_data_def)

text \<open>
  Whenever the initial response carries no data and the maximum wait is positive, the
  answer is \<open>processing\<close> after one interval: the timeout branch is out of reach.
\<close>

lemma pollForResult_no_data:
  "response_data r = None \<Longrightarrow> 0 < maxTime \<Longrightarrow>
     poll_status (fst (pollForResult i maxTime interval r now)) = Processing
     \<and> snd (pollForResult i maxTime interval r now) = now + interval"
  by (simp add: pollForResult_def)

text \<open>
  Claim C2, as the code has it. When the agent is registered, the webhook call returns a
  response without immediate data and the agent has no positive \<open>maxExecutionTime\<close>,
  \<open>executeAgent\<close> returns an execution with status \<open>completed\<close>, the fixed sample video
  as its output and \<open>completedAt\<close> set.
\<close>

theorem executeAgent_assumes_success:
  "agents aid = Some agent \<Longrightarrow> webhook_outcome env = Inr response \<Longrightarrow>
   immediate_data response = None \<Longrightarrow> polling_time agent = None \<Longrightarrow>
     executeAgent agents env aid inp =
       (Some \<lparr> exec_id = fresh_id env, agentId = aid, status = Completed, input = inp,
               exec_output = Some assumed_success_output, createdAt = clock env,
               completedAt = Some (clock env), error = None \<rparr>,
        Inr \<lparr> exec_id = fresh_id env, agentId = aid, status = Completed, input = inp,
              exec_output = Some assumed_success_output, createdAt = clock env,
              completedAt = Some (clock env), error = None \<rparr>)"
  by (simp add: executeAgent_def getAgentOrThrow_def getAgent_def createExecution_def Let_def)

text \<open>
  The claim as stated fails for the agent without settings: the status returned is
  \<open>completed\<close>, not \<open>processing\<close>, and the output is the sample video.
\<close>

theorem executeAgent_fabricates_completed:
  "snd (executeAgent sample_registry accepted_env ''plain-agent'' red_fox) =
     Inr \<lparr> exec_id = ''exec-1'', agentId = ''plain-agent'', status = Completed, input = red_fox,
           exec_output = Some assumed_success_output, createdAt = 1000,
           completedAt = Some 1000, error = None \<rparr>
   \<and> Completed \<noteq> Processing"
  by (simp add: executeAgent_def getAgentOrThrow_def getAgent_def createExecution_def Let_def
       sample_registry_def accepted_env_def plain_agent_def polling_time_def response_data_def
       immediate_data_def)

theorem executeAgent_assumes_success_witness:
  "executeAgent sample_registry accepted_env ''plain-agent'' red_fox =
       (Some \<lparr> exec_id = ''exec-1'', agentId = ''plain-agent'', status = Completed, input = red_fox,
               exec_output = Some assumed_success_output, createdAt = 1000,
               completedAt = Some 1000, error = None \<rparr>,
        Inr \<lparr> exec_id = ''exec-1'', agentId = ''plain-agent'', status = Completed, input = red_fox,
              exec_output = Some assumed_success_output, createdAt = 1000,
              completedAt = Some 1000, error = None \<rparr>)"
proof -
  have a: "sample_registry ''plain-agent'' = Some plain_agent"
    by (simp add: sample_registry_def)
  have b: "webhook_outcome accepted_env = Inr (JObj [(''status'', JStr ''accepted'')])"
    by (simp add: accepted_env_def)
  have c: "immediate_data (JObj [(''status'', JStr ''accepted'')]) = None"
    by (simp add: response_data_def immediate_data_def)
  have d: "polling_time plain_agent = None"
    by (simp add: polling_time_def plain_agent_def)
  show ?thesis
    using executeAgent_assumes_success
      [of sample_registry "''plain-agent''" plain_agent accepted_env
          "JObj [(''status'', JStr ''accepted'')]" red_fox, OF a b c d]
    by (simp add: accepted_env_def)
qed

text \<open>
  Claim C3, as the code has it. For an agent id the registry does not hold,
  \<open>executeAgent\<close> throws the \<open>AgentValidationError\<close> of \<open>getAgentOrThrow\<close>, with the message
  "Agent not found: " followed by the id, before any \<open>Execution\<close> object is created.
\<close>

theorem executeAgent_unknown_agent:
  "agents aid = None \<Longrightarrow>
     executeAgent agents env aid inp =
       (None, Inl (AgentValidationError (''Agent not found: '' @ aid) None))"
  by (simp add: executeAgent_def getAgentOrThrow_def getAgent_def)

text \<open>
  The claim as stated fails at the id \<open>missing-agent\<close>: what is thrown has no code
  \<open>AGENT_NOT_FOUND\<close>, and \<open>parseError\<close> files it under \<open>UNKNOWN_ERROR\<close>.
\<close>

theorem executeAgent_unknown_agent_not_AGENT_NOT_FOUND:
  "executeAgent sample_registry accepted_env ''missing-agent'' red_fox =
     (None, Inl (AgentValidationError ''Agent not found: missing-agent'' None))
   \<and> code_of (AgentValidationError ''Agent not found: missing-agent'' None)
        \<noteq> Some ''AGENT_NOT_FOUND''
   \<and> code (parseError (AgentValidationError ''Agent not found: missing-agent'' None))
        = ''UNKNOWN_ERROR''"
  by (simp add: executeAgent_def getAgentOrThrow_def getAgent_def sample_registry_def
       parseError_def)

theorem executeAgent_unknown_agent_witness:
  "sample_registry ''missing-agent'' = None \<and>
   fst (executeAgent sample_registry accepted_env ''missing-agent'' red_fox) = None \<and>
   snd (executeAgent sample_registry accepted_env ''missing-agent'' red_fox) =
     Inl (AgentValidationError ''Agent not found: missing-agent'' None)"
proof -
  have a: "sample_registry ''missing-agent'' = None"
    by (simp add: sample_registry_def)
  from a executeAgent_unknown_agent
    [of sample_registry "''missing-agent''" accepted_env red_fox, OF a]
  show ?thesis
    by simp
qed

end
